theory Spec2Isabelle
  imports Main "HOL-Library.Word"
begin

section \<open>Data model of \<^verbatim>\<open>src/src/index.ts\<close>\<close>

text \<open>
  The source file holds two copies of the canister one after the other. Lines 1 to 143
  are the later revision (identifier generator, ownership checks written into update and
  delete); lines 145 to 312 are the earlier revision (\<^verbatim>\<open>uuidv4()\<close> used directly, no
  ownership check on update and delete, plus \<^verbatim>\<open>getPost\<close> and \<^verbatim>\<open>commentOnPost\<close>). Both are
  embedded. A function that occurs twice carries the suffix \<open>_1\<close> (lines 1 to 143) or
  \<open>_2\<close> (lines 145 to 312).
\<close>

text \<open>
  \<^verbatim>\<open>Principal\<close>: the source only ever compares principals through \<^verbatim>\<open>toString()\<close>, so a
  principal is represented by its textual form.
\<close>

datatype Principal = Principal (toString: string)

text \<open>
  \<^verbatim>\<open>Post\<close> (lines 7 to 17). \<^verbatim>\<open>id\<close> is named \<open>post_id\<close>, since \<open>id\<close> is HOL's identity
  function. \<^verbatim>\<open>nat64\<close> is a 64-bit word, \<^verbatim>\<open>Opt\<close> is \<open>option\<close>, \<^verbatim>\<open>Vec\<close> is a list.
  \<^verbatim>\<open>likes\<close> is a JavaScript number, a double. The program stores 0 in it and adds 1 to
  it, nothing else, so the field holds a double whose value is an integer, and it is
  represented by that integer. An integer that is not a double does not occur in it.
\<close>

record Post =
  owner :: Principal
  post_id :: string
  title :: string
  body :: string
  imageURL :: string
  likes :: int
  comments :: "string list"
  created_at :: "64 word"
  updated_at :: "64 word option"

text \<open>
  \<^verbatim>\<open>+ 1\<close> on such a number (lines 93 and 270): the sum rounded to the nearest double,
  ties to the even significand. From \<open>-2^53\<close> up to \<open>2^53 - 1\<close> the sum is a double and
  the addition is exact. Where neighbouring doubles are 2 apart (magnitudes from \<open>2^53\<close>
  to \<open>2^54\<close>) the sum lies halfway between the number and the number plus 2, and goes
  to the one whose half is even. Beyond that it is nearer to the number itself. So at
  \<open>2^53\<close> the count stays \<open>2^53\<close>.
\<close>

definition number_plus_1 :: "int \<Rightarrow> int" where
  "number_plus_1 n =
     (if - (2 ^ 53) \<le> n \<and> n < 2 ^ 53 then n + 1
      else if (2 ^ 53 \<le> n \<and> n < 2 ^ 54 \<or> - (2 ^ 54) \<le> n \<and> n < - (2 ^ 53)) \<and> odd (n div 2)
      then n + 2
      else n)"

text \<open>\<^verbatim>\<open>PostPayload\<close> (lines 20 to 24); the fields carry the prefix \<open>p_\<close>.\<close>

record PostPayload =
  p_title :: string
  p_body :: string
  p_imageURL :: string

text \<open>
  \<^verbatim>\<open>Result<Post, string>\<close>: \<open>Inl\<close> is \<^verbatim>\<open>Result.Err\<close> with its message, \<open>Inr\<close> is
  \<^verbatim>\<open>Result.Ok\<close>.
\<close>

type_synonym Result = "string + Post"

section \<open>The store\<close>

text \<open>
  \<^verbatim>\<open>StableBTreeMap\<close> comes from the azle library, which is not part of the source tree;
  its three operations that the source calls are taken from section 4.1 of the
  specification. The optional value that \<^verbatim>\<open>get\<close> and \<^verbatim>\<open>remove\<close> return is the object
  that lines 199, 238, 262, 281 and 295 match on, \<^verbatim>\<open>{Some: post}\<close> or \<^verbatim>\<open>{None: null}\<close>,
  built like the \<^verbatim>\<open>Opt.Some(...)\<close> and \<^verbatim>\<open>Opt.None\<close> of lines 68, 94 and 119; it is an
  \<open>option\<close> here. The size bounds 44 and 1024 passed to the constructor are not part of
  the contract and are not modelled.
\<close>

type_synonym StableBTreeMap = "string \<rightharpoonup> Post"

text \<open>
  Modelled from the spec: \<^verbatim>\<open>insert\<close> of the library's map. It upserts and overwrites any
  existing value at the key.
\<close>

definition store_insert :: "string \<Rightarrow> Post \<Rightarrow> StableBTreeMap \<Rightarrow> StableBTreeMap" where
  "store_insert k v m = m(k \<mapsto> v)"

text \<open>
  Modelled from the spec: \<^verbatim>\<open>get\<close> of the library's map. A point lookup, nothing if the
  key is absent.
\<close>

definition store_get :: "string \<Rightarrow> StableBTreeMap \<Rightarrow> Post option" where
  "store_get k m = m k"

text \<open>
  Modelled from the spec: \<^verbatim>\<open>remove\<close> of the library's map. It deletes the key and returns
  the prior value, or nothing if the key is absent.
\<close>

definition store_remove :: "string \<Rightarrow> StableBTreeMap \<Rightarrow> Post option \<times> StableBTreeMap" where
  "store_remove k m = (m k, m(k := None))"

text \<open>
  The state of the canister: the store, the set of the identifier generator (line 28),
  and the number of calls made to \<^verbatim>\<open>uuidv4\<close> so far. \<^verbatim>\<open>uuidv4\<close> itself is the
  environment's: a function giving the string returned by its \<open>n\<close>-th call.
  \<^verbatim>\<open>ic.caller()\<close> and \<^verbatim>\<open>ic.time()\<close> are arguments \<open>caller\<close> and \<open>now\<close> of every
  operation that reads them.
\<close>

record state =
  postStorage :: StableBTreeMap
  generatedUUIDs :: "string set"
  drawn :: nat

definition init :: state where
  "init = \<lparr>postStorage = Map.empty, generatedUUIDs = {}, drawn = 0\<rparr>"

section \<open>Lines 1 to 143\<close>

text \<open>
  \<^verbatim>\<open>SecureUUIDGenerator.generateUUID\<close> (lines 30 to 38): the do-while loop draws until
  the value is not in the set. Nothing bounds the number of draws, so the loop is a
  partial function; \<open>None\<close> is the loop that never ends.
\<close>

partial_function (option) generateUUID ::
    "(nat \<Rightarrow> string) \<Rightarrow> nat \<Rightarrow> string set \<Rightarrow> (string \<times> nat \<times> string set) option" where
  "generateUUID uuidv4 n seen =
     (let newUUID = uuidv4 n in
      if newUUID \<in> seen then generateUUID uuidv4 (Suc n) seen
      else Some (newUUID, Suc n, insert newUUID seen))"

definition addPost_1 ::
    "(nat \<Rightarrow> string) \<Rightarrow> Principal \<Rightarrow> 64 word \<Rightarrow> PostPayload \<Rightarrow> state \<Rightarrow> (Result \<times> state) option" where
  "addPost_1 uuidv4 caller now payload s =
     (if p_title payload = [] \<or> p_body payload = [] \<or> p_imageURL payload = []
      then Some (Inl ''Missing required fields'', s)
      else case generateUUID uuidv4 (drawn s) (generatedUUIDs s) of
        None \<Rightarrow> None
      | Some (newUUID, n, seen) \<Rightarrow>
          let post = \<lparr>owner = caller, post_id = newUUID, title = p_title payload,
                      body = p_body payload, imageURL = p_imageURL payload, likes = 0,
                      comments = [], created_at = now, updated_at = None\<rparr>
          in Some (Inr post,
                   s\<lparr>postStorage := store_insert (post_id post) post (postStorage s),
                     generatedUUIDs := seen, drawn := n\<rparr>))"

text \<open>
  \<^verbatim>\<open>likePost\<close>, \<^verbatim>\<open>updatePost\<close> and \<^verbatim>\<open>deletePost\<close> of lines 80 to 143 keep the object that
  \<^verbatim>\<open>get\<close> returns in \<^verbatim>\<open>post\<close> and use it as if it were the post or \<^verbatim>\<open>null\<close>.

  \<^verbatim>\<open>post === null\<close> (lines 83, 108, 133): \<^verbatim>\<open>post\<close> is an object, for a stored id and for
  an absent one, so the test is false.
\<close>

definition is_null :: "Post option \<Rightarrow> bool" where
  "is_null post = False"

text \<open>
  A JavaScript exception. A call that raises returns no \<^verbatim>\<open>Result\<close>; it is \<open>Inl\<close> of the
  exception, and a call that returns is \<open>Inr\<close> of its result and the state it leaves.
\<close>

datatype js_error = TypeError

text \<open>
  After the null test each of the three compares \<^verbatim>\<open>ic.caller().toString()\<close> with
  \<^verbatim>\<open>post.owner.toString()\<close> (lines 87, 112, 137). The object has the one property
  \<^verbatim>\<open>Some\<close> or \<^verbatim>\<open>None\<close>, so \<^verbatim>\<open>post.owner\<close> is \<^verbatim>\<open>undefined\<close> and the call of \<^verbatim>\<open>toString\<close> on
  it raises a \<^verbatim>\<open>TypeError\<close>. Nothing after the comparison runs: the store is neither
  written nor read again.
\<close>

definition likePost_1 ::
    "Principal \<Rightarrow> 64 word \<Rightarrow> string \<Rightarrow> state \<Rightarrow> js_error + Result \<times> state" where
  "likePost_1 caller now i s =
     (let post = store_get i (postStorage s) in
      if is_null post
      then Inr (Inl (''Couldn't update post with id='' @ i @ ''. Post not found''), s)
      else Inl TypeError)"

definition updatePost_1 ::
    "Principal \<Rightarrow> 64 word \<Rightarrow> string \<Rightarrow> PostPayload \<Rightarrow> state \<Rightarrow> js_error + Result \<times> state" where
  "updatePost_1 caller now i payload s =
     (let post = store_get i (postStorage s) in
      if is_null post
      then Inr (Inl (''Couldn't update post with id='' @ i @ ''. Post not found''), s)
      else Inl TypeError)"

definition deletePost_1 :: "Principal \<Rightarrow> string \<Rightarrow> state \<Rightarrow> js_error + Result \<times> state" where
  "deletePost_1 caller i s =
     (let post = store_get i (postStorage s) in
      if is_null post
      then Inr (Inl (''Couldn't delete post with id='' @ i @ ''. Post not found''), s)
      else Inl TypeError)"

section \<open>Lines 145 to 312\<close>

text \<open>
  \<open>updatePost_2\<close> and \<open>deletePost_2\<close> take the caller like the other operations, and
  like their source never read it. \<open>deletePost_2\<close> calls \<^verbatim>\<open>remove\<close> before it looks at
  the outcome, so the store after the call is the one \<^verbatim>\<open>remove\<close> leaves in both branches.
\<close>

definition getPost :: "string \<Rightarrow> state \<Rightarrow> Result" where
  "getPost i s =
     (case store_get i (postStorage s) of
        Some post \<Rightarrow> Inr post
      | None \<Rightarrow> Inl (''a post with id='' @ i @ '' not found''))"

definition addPost_2 ::
    "(nat \<Rightarrow> string) \<Rightarrow> Principal \<Rightarrow> 64 word \<Rightarrow> PostPayload \<Rightarrow> state \<Rightarrow> Result \<times> state" where
  "addPost_2 uuidv4 caller now payload s =
     (if p_title payload = [] \<or> p_body payload = [] \<or> p_imageURL payload = []
      then (Inl ''Missing required fields'', s)
      else let post = \<lparr>owner = caller, post_id = uuidv4 (drawn s), title = p_title payload,
                       body = p_body payload, imageURL = p_imageURL payload, likes = 0,
                       comments = [], created_at = now, updated_at = None\<rparr>
           in (Inr post,
               s\<lparr>postStorage := store_insert (post_id post) post (postStorage s),
                 drawn := Suc (drawn s)\<rparr>))"

definition commentOnPost :: "string \<Rightarrow> string \<Rightarrow> state \<Rightarrow> Result \<times> state" where
  "commentOnPost i comment s =
     (case store_get i (postStorage s) of
        Some post \<Rightarrow>
          let updatedPost = post\<lparr>comments := comments post @ [comment]\<rparr>
          in (Inr updatedPost, s\<lparr>postStorage := store_insert i updatedPost (postStorage s)\<rparr>)
      | None \<Rightarrow> (Inl ''Post not found.'', s))"

definition likePost_2 :: "Principal \<Rightarrow> 64 word \<Rightarrow> string \<Rightarrow> state \<Rightarrow> Result \<times> state" where
  "likePost_2 caller now i s =
     (case store_get i (postStorage s) of
        Some post \<Rightarrow>
          if toString (owner post) = toString caller
          then (Inl ''Owners cannot like their post'', s)
          else let updatedPost = post\<lparr>likes := number_plus_1 (likes post),
                                      updated_at := Some now\<rparr>
               in (Inr updatedPost,
                   s\<lparr>postStorage := store_insert (post_id post) updatedPost (postStorage s)\<rparr>)
      | None \<Rightarrow> (Inl (''couldn't update a post with id='' @ i @ ''. post not found''), s))"

definition updatePost_2 ::
    "Principal \<Rightarrow> 64 word \<Rightarrow> string \<Rightarrow> PostPayload \<Rightarrow> state \<Rightarrow> Result \<times> state" where
  "updatePost_2 caller now i payload s =
     (case store_get i (postStorage s) of
        Some post \<Rightarrow>
          let updatedPost = post\<lparr>title := p_title payload, body := p_body payload,
                                 imageURL := p_imageURL payload, updated_at := Some now\<rparr>
          in (Inr updatedPost,
              s\<lparr>postStorage := store_insert (post_id post) updatedPost (postStorage s)\<rparr>)
      | None \<Rightarrow> (Inl (''couldn't update a post with id='' @ i @ ''. post not found''), s))"

definition deletePost_2 :: "Principal \<Rightarrow> string \<Rightarrow> state \<Rightarrow> Result \<times> state" where
  "deletePost_2 caller i s =
     (case store_remove i (postStorage s) of
        (Some deletedPost, m) \<Rightarrow> (Inr deletedPost, s\<lparr>postStorage := m\<rparr>)
      | (None, m) \<Rightarrow>
          (Inl (''couldn't delete a post with id='' @ i @ ''. post not found.''), s\<lparr>postStorage := m\<rparr>))"

section \<open>The canister's interface\<close>

text \<open>
  The exported methods of both revisions as one datatype of calls, and \<open>perform\<close>, which
  runs one call. The result is \<open>None\<close> when the call does not return (the loop of
  \<open>generateUUID\<close>), \<open>Some (Inl x)\<close> when it raises \<open>x\<close>, and \<open>Some (Inr (r, s'))\<close> when
  it returns \<open>r\<close> and leaves the state \<open>s'\<close>. \<^verbatim>\<open>getPost\<close> is a query: it returns the state
  as it is.
\<close>

datatype call =
    AddPost_1 PostPayload
  | LikePost_1 string
  | UpdatePost_1 string PostPayload
  | DeletePost_1 string
  | GetPost string
  | AddPost_2 PostPayload
  | CommentOnPost string string
  | LikePost_2 string
  | UpdatePost_2 string PostPayload
  | DeletePost_2 string

fun perform ::
    "(nat \<Rightarrow> string) \<Rightarrow> Principal \<Rightarrow> 64 word \<Rightarrow> call \<Rightarrow> state
       \<Rightarrow> (js_error + Result \<times> state) option" where
  "perform uuidv4 caller now (AddPost_1 payload) s =
     map_option Inr (addPost_1 uuidv4 caller now payload s)"
| "perform uuidv4 caller now (LikePost_1 i) s = Some (likePost_1 caller now i s)"
| "perform uuidv4 caller now (UpdatePost_1 i payload) s = Some (updatePost_1 caller now i payload s)"
| "perform uuidv4 caller now (DeletePost_1 i) s = Some (deletePost_1 caller i s)"
| "perform uuidv4 caller now (GetPost i) s = Some (Inr (getPost i s, s))"
| "perform uuidv4 caller now (AddPost_2 payload) s =
     Some (Inr (addPost_2 uuidv4 caller now payload s))"
| "perform uuidv4 caller now (CommentOnPost i comment) s = Some (Inr (commentOnPost i comment s))"
| "perform uuidv4 caller now (LikePost_2 i) s = Some (Inr (likePost_2 caller now i s))"
| "perform uuidv4 caller now (UpdatePost_2 i payload) s =
     Some (Inr (updatePost_2 caller now i payload s))"
| "perform uuidv4 caller now (DeletePost_2 i) s = Some (Inr (deletePost_2 caller i s))"

text \<open>
  Every post is stored under its own id. \<^verbatim>\<open>likePost\<close> and \<^verbatim>\<open>updatePost\<close> of lines 261 to
  289 look a post up under the \<^verbatim>\<open>id\<close> argument and write it back under \<^verbatim>\<open>post.id\<close>; the
  two keys are the same in every state the canister can reach, by this invariant.
\<close>

definition stored_under_own_id :: "state \<Rightarrow> bool" where
  "stored_under_own_id s = (\<forall>k p. postStorage s k = Some p \<longrightarrow> post_id p = k)"

section \<open>A scenario\<close>

definition alice :: Principal where
  "alice = Principal ''rrkah-fqaaa-aaaaa-aaaaq-cai''"

definition bob :: Principal where
  "bob = Principal ''ryjl3-tyaaa-aaaaa-aaaba-cai''"

definition id_a :: string where
  "id_a = ''1b4e28ba-2fa1-41d2-883f-0016d3cca427''"

definition id_b :: string where
  "id_b = ''6fa459ea-ee8a-4ca4-894e-db77e160355e''"

text \<open>A source of identifiers that differ, and one that returns the same identifier twice.\<close>

definition uuids :: "nat \<Rightarrow> string" where
  "uuids n = (if n = 0 then id_a else id_b)"

definition same_uuid :: "nat \<Rightarrow> string" where
  "same_uuid n = id_a"

definition payload_T :: PostPayload where
  "payload_T = \<lparr>p_title = ''T'', p_body = ''B'', p_imageURL = ''I''\<rparr>"

definition payload_X :: PostPayload where
  "payload_X = \<lparr>p_title = ''X'', p_body = ''Y'', p_imageURL = ''Z''\<rparr>"

definition payload_empty_title :: PostPayload where
  "payload_empty_title = \<lparr>p_title = [], p_body = ''B'', p_imageURL = ''I''\<rparr>"

text \<open>The post that \<open>alice\<close> creates from \<open>payload_T\<close> at time 5, and the state that holds it.\<close>

definition post_a :: Post where
  "post_a = \<lparr>owner = alice, post_id = id_a, title = ''T'', body = ''B'', imageURL = ''I'',
              likes = 0, comments = [], created_at = 5, updated_at = None\<rparr>"

definition state_a :: state where
  "state_a = \<lparr>postStorage = [id_a \<mapsto> post_a], generatedUUIDs = {}, drawn = 1\<rparr>"

text \<open>The state after the same call of the \<^verbatim>\<open>addPost\<close> of lines 54 to 76.\<close>

definition state_a1 :: state where
  "state_a1 = \<lparr>postStorage = [id_a \<mapsto> post_a], generatedUUIDs = {id_a}, drawn = 1\<rparr>"

section \<open>Facts about the generator and the store\<close>

lemma generateUUID_fresh_aux:
  assumes "generateUUID uuidv4 n seen = Some r"
  shows "fst r \<notin> seen \<and> snd (snd r) = insert (fst r) seen \<and> n < fst (snd r)
       \<and> fst r = uuidv4 (fst (snd r) - 1)"
proof (rule generateUUID.raw_induct
    [where P = "\<lambda>f k S y. fst y \<notin> S \<and> snd (snd y) = insert (fst y) S \<and> k < fst (snd y)
                   \<and> fst y = f (fst (snd y) - 1)", OF _ assms])
  fix loop :: "(nat \<Rightarrow> string) \<Rightarrow> nat \<Rightarrow> string set \<Rightarrow> (string \<times> nat \<times> string set) option"
  fix f k S y
  assume IH: "\<And>f k S y. loop f k S = Some y \<Longrightarrow>
      fst y \<notin> S \<and> snd (snd y) = insert (fst y) S \<and> k < fst (snd y) \<and> fst y = f (fst (snd y) - 1)"
  assume eq: "(let newUUID = f k in
      if newUUID \<in> S then loop f (Suc k) S else Some (newUUID, Suc k, insert newUUID S)) = Some y"
  show "fst y \<notin> S \<and> snd (snd y) = insert (fst y) S \<and> k < fst (snd y) \<and> fst y = f (fst (snd y) - 1)"
  proof (cases "f k \<in> S")
    case True
    with eq have "loop f (Suc k) S = Some y"
      by (simp add: Let_def)
    from IH [OF this] show ?thesis by auto
  next
    case False
    with eq show ?thesis by (auto simp add: Let_def)
  qed
qed

lemma generateUUID_fresh:
  "generateUUID uuidv4 n seen = Some (u, n', seen') \<Longrightarrow>
     u \<notin> seen \<and> seen' = insert u seen \<and> n < n' \<and> u = uuidv4 (n' - 1)"
  by (drule generateUUID_fresh_aux) auto

lemma generateUUID_returns:
  "uuidv4 (n + k) \<notin> seen \<Longrightarrow> \<exists>r. generateUUID uuidv4 n seen = Some r"
proof (induction k arbitrary: n)
  case 0
  then show ?case by (subst generateUUID.simps) (simp add: Let_def)
next
  case (Suc k)
  then have "\<exists>r. generateUUID uuidv4 (Suc n) seen = Some r" by simp
  then show ?case by (subst generateUUID.simps) (simp add: Let_def)
qed

lemmas ops_defs = likePost_1_def likePost_2_def updatePost_1_def updatePost_2_def
  deletePost_1_def deletePost_2_def commentOnPost_def getPost_def addPost_2_def
  store_get_def store_insert_def store_remove_def is_null_def Let_def

lemma state_a_reached: "addPost_2 uuids alice 5 payload_T init = (Inr post_a, state_a)"
  by (simp add: addPost_2_def store_insert_def Let_def uuids_def payload_T_def init_def
      post_a_def state_a_def)

lemma state_a1_reached: "addPost_1 uuids alice 5 payload_T init = Some (Inr post_a, state_a1)"
proof -
  have "generateUUID uuids 0 {} = Some (id_a, Suc 0, {id_a})"
    by (subst generateUUID.simps) (simp add: uuids_def)
  then show ?thesis
    by (simp add: addPost_1_def store_insert_def Let_def payload_T_def init_def post_a_def
        state_a1_def)
qed

lemma stored_under_own_id_init: "stored_under_own_id init"
  by (simp add: stored_under_own_id_def init_def)

lemma addPost_1_result:
  "addPost_1 uuidv4 caller now payload s = Some (r, s') \<Longrightarrow>
     (r = Inl ''Missing required fields'' \<and> s' = s) \<or>
     (\<exists>u n. generateUUID uuidv4 (drawn s) (generatedUUIDs s) = Some (u, n, insert u (generatedUUIDs s))
        \<and> u \<notin> generatedUUIDs s
        \<and> r = Inr \<lparr>owner = caller, post_id = u, title = p_title payload,
                    body = p_body payload, imageURL = p_imageURL payload, likes = 0,
                    comments = [], created_at = now, updated_at = None\<rparr>
        \<and> s' = s\<lparr>postStorage := (postStorage s)(u \<mapsto> \<lparr>owner = caller, post_id = u, title = p_title payload,
                    body = p_body payload, imageURL = p_imageURL payload, likes = 0,
                    comments = [], created_at = now, updated_at = None\<rparr>),
                  generatedUUIDs := insert u (generatedUUIDs s), drawn := n\<rparr>)"
  by (auto simp add: addPost_1_def store_insert_def Let_def
      split: if_splits option.splits prod.splits dest: generateUUID_fresh)

lemma updatePost_1_raises: "updatePost_1 caller now i payload s = Inl TypeError"
  by (simp add: updatePost_1_def is_null_def)

lemma deletePost_1_raises: "deletePost_1 caller i s = Inl TypeError"
  by (simp add: deletePost_1_def is_null_def)

lemma number_plus_1_exact: "- (2 ^ 53) \<le> n \<Longrightarrow> n < 2 ^ 53 \<Longrightarrow> number_plus_1 n = n + 1"
  by (simp add: number_plus_1_def)

lemma number_plus_1_at_limit: "number_plus_1 (2 ^ 53) = 2 ^ 53"
  by (simp add: number_plus_1_def)

section \<open>Ownership on update and delete\<close>

text \<open>
  Claim C1: \<^verbatim>\<open>updatePost\<close> succeeds only for the owner of the post, and for any other caller
  returns an error and leaves the stored post as it was. The \<^verbatim>\<open>updatePost\<close> of lines 105 to
  124 has the comparison of caller and owner written into it (line 112).
  \<open>updatePost_2\<close> (lines 280 to 289) never reads the caller: in the state where \<open>alice\<close>
  owns the post \<open>id_a\<close>, the call by \<open>bob\<close> returns \<^verbatim>\<open>Ok\<close> and the store holds \<open>bob\<close>'s
  title, body and image.
\<close>

theorem updatePost_2_by_non_owner:
  "getPost id_a state_a = Inr post_a \<and> owner post_a \<noteq> bob \<and>
   updatePost_2 bob 9 id_a payload_X state_a =
     (Inr (post_a\<lparr>title := ''X'', body := ''Y'', imageURL := ''Z'', updated_at := Some 9\<rparr>),
      state_a\<lparr>postStorage :=
        [id_a \<mapsto> post_a\<lparr>title := ''X'', body := ''Y'', imageURL := ''Z'', updated_at := Some 9\<rparr>]\<rparr>)"
  by (simp add: updatePost_2_def getPost_def store_get_def store_insert_def Let_def state_a_def
      post_a_def payload_X_def alice_def bob_def)

text \<open>
  Claim C2: \<^verbatim>\<open>deletePost\<close> removes the post only for its owner, and for any other caller
  returns an error and leaves the stored post as it was. The \<^verbatim>\<open>deletePost\<close> of lines 130 to
  143 has the comparison of caller and owner written into it (line 137).
  \<open>deletePost_2\<close> (lines 294 to 299) never reads the caller: the call by \<open>bob\<close> on
  \<open>alice\<close>'s post returns \<^verbatim>\<open>Ok\<close> with the post and the store is empty afterwards.
\<close>

theorem deletePost_2_by_non_owner:
  "getPost id_a state_a = Inr post_a \<and> owner post_a \<noteq> bob \<and>
   deletePost_2 bob id_a state_a = (Inr post_a, state_a\<lparr>postStorage := Map.empty\<rparr>)"
  by (simp add: deletePost_2_def getPost_def store_get_def store_remove_def state_a_def
      post_a_def alice_def bob_def)

section \<open>Likes\<close>

text \<open>
  Claim C3: for a stored post, \<^verbatim>\<open>likePost\<close> by a caller other than the owner returns the
  post with \<open>likes\<close> one higher and \<open>updated_at\<close> set to the current time, and stores it;
  by the owner it returns an error and changes nothing. \<open>likePost_2\<close> (lines 261 to 276)
  does so for every count below \<open>2^53\<close> (\<open>likePost_2_counts\<close>, below). \<open>likePost_1\<close>
  (lines 80 to 99) does not: \<open>alice\<close> has created the post \<open>id_a\<close> through the
  \<^verbatim>\<open>addPost\<close> of lines 54 to 76 (\<open>state_a1_reached\<close>), \<open>bob\<close> likes it, and the call raises
  a \<^verbatim>\<open>TypeError\<close> where the claim has \<^verbatim>\<open>Ok\<close> with one like.
\<close>

theorem likePost_1_by_non_owner:
  "postStorage state_a1 id_a = Some post_a \<and> owner post_a \<noteq> bob \<and>
   likePost_1 bob 8 id_a state_a1 = Inl TypeError"
  by (simp add: likePost_1_def is_null_def store_get_def state_a1_def post_a_def alice_def bob_def)

lemma likePost_1_raises: "likePost_1 caller now i s = Inl TypeError"
  by (simp add: likePost_1_def is_null_def)

lemma likePost_2_counts:
  assumes "postStorage s i = Some p" and "post_id p = i"
    and "- (2 ^ 53) \<le> likes p" and "likes p < 2 ^ 53"
  shows "(caller \<noteq> owner p \<longrightarrow>
            likePost_2 caller now i s =
              (Inr (p\<lparr>likes := likes p + 1, updated_at := Some now\<rparr>),
               s\<lparr>postStorage := (postStorage s)(i \<mapsto> p\<lparr>likes := likes p + 1, updated_at := Some now\<rparr>)\<rparr>))
       \<and> (caller = owner p \<longrightarrow>
            likePost_2 caller now i s = (Inl ''Owners cannot like their post'', s))"
  using assms
  by (auto simp add: likePost_2_def store_get_def store_insert_def Let_def Principal.expand
      number_plus_1_exact)

lemma likePost_2_at_limit:
  assumes "postStorage s i = Some p" and "post_id p = i" and "likes p = 2 ^ 53"
    and "caller \<noteq> owner p"
  shows "likePost_2 caller now i s =
           (Inr (p\<lparr>updated_at := Some now\<rparr>),
            s\<lparr>postStorage := (postStorage s)(i \<mapsto> p\<lparr>updated_at := Some now\<rparr>)\<rparr>)"
proof -
  have "number_plus_1 (likes p) = likes p"
    using assms(3) by (simp add: number_plus_1_def)
  then have "p\<lparr>likes := number_plus_1 (likes p), updated_at := Some now\<rparr>
      = p\<lparr>updated_at := Some now\<rparr>"
    by simp
  with assms(1,2,4) show ?thesis
    by (auto simp add: likePost_2_def store_get_def store_insert_def Let_def Principal.expand)
qed

section \<open>Identifiers\<close>

text \<open>
  Claim C4: no two \<^verbatim>\<open>addPost\<close> calls produce the same id. \<open>addPost_1\<close> draws its id
  from \<open>generateUUID\<close>, which returns only a string it has not returned before
  (\<open>addPost_1_ids_distinct\<close>, below). \<open>addPost_2\<close> (lines 208 to 231) takes whatever
  \<^verbatim>\<open>uuidv4()\<close> returns and checks nothing: when \<^verbatim>\<open>uuidv4()\<close> returns the same string twice,
  the two posts have the same id and the second replaces the first in the store.
\<close>

theorem addPost_2_id_not_unique:
  "addPost_2 same_uuid alice 5 payload_T init = (Inr post_a, state_a) \<and>
   addPost_2 same_uuid bob 6 payload_X state_a =
     (Inr \<lparr>owner = bob, post_id = id_a, title = ''X'', body = ''Y'', imageURL = ''Z'',
           likes = 0, comments = [], created_at = 6, updated_at = None\<rparr>,
      \<lparr>postStorage = [id_a \<mapsto> \<lparr>owner = bob, post_id = id_a, title = ''X'', body = ''Y'',
          imageURL = ''Z'', likes = 0, comments = [], created_at = 6, updated_at = None\<rparr>],
        generatedUUIDs = {}, drawn = 2\<rparr>)"
  by (simp add: addPost_2_def store_insert_def Let_def same_uuid_def payload_T_def payload_X_def
      init_def post_a_def state_a_def)

lemma addPost_1_fresh_id:
  assumes "addPost_1 uuidv4 caller now payload s = Some (Inr post, s')"
  shows "post_id post \<notin> generatedUUIDs s \<and> generatedUUIDs s' = insert (post_id post) (generatedUUIDs s)"
  using addPost_1_result [OF assms] by auto

lemma perform_keeps_generatedUUIDs:
  assumes "perform uuidv4 caller now c s = Some (Inr (r, s'))"
  shows "generatedUUIDs s \<subseteq> generatedUUIDs s'"
proof (cases c)
  case (AddPost_1 payload)
  with assms have "addPost_1 uuidv4 caller now payload s = Some (r, s')" by auto
  from addPost_1_result [OF this] show ?thesis by auto
qed (use assms in \<open>auto simp add: ops_defs split: option.splits if_splits\<close>)

lemma addPost_1_ids_distinct:
  assumes "addPost_1 uuidv4 caller now payload s = Some (Inr post, s')"
    and "generatedUUIDs s' \<subseteq> generatedUUIDs t"
    and "addPost_1 uuidv4' caller' now' payload' t = Some (Inr post', t')"
  shows "post_id post' \<noteq> post_id post"
  using addPost_1_fresh_id [OF assms(1)] addPost_1_fresh_id [OF assms(3)] assms(2) by auto

lemma perform_preserves_own_id:
  assumes "stored_under_own_id s" and "perform uuidv4 caller now c s = Some (Inr (r, s'))"
  shows "stored_under_own_id s'"
proof (cases c)
  case (AddPost_1 payload)
  with assms have "addPost_1 uuidv4 caller now payload s = Some (r, s')" by auto
  from addPost_1_result [OF this] assms(1) show ?thesis
    by (auto simp add: stored_under_own_id_def split: if_splits)
qed (use assms in \<open>auto simp add: stored_under_own_id_def ops_defs
        split: option.splits if_splits\<close>)

section \<open>Errors leave the state alone\<close>

text \<open>
  Claim C5: whenever a call of either revision (\<^verbatim>\<open>addPost\<close>, \<^verbatim>\<open>getPost\<close>, \<^verbatim>\<open>updatePost\<close>,
  \<^verbatim>\<open>deletePost\<close>, \<^verbatim>\<open>likePost\<close>, \<^verbatim>\<open>commentOnPost\<close>) returns an error result, the state after
  the call (the store, and the generator's set and the count of draws with it) is the
  state before it; and \<^verbatim>\<open>addPost\<close> with an empty title, body or image URL returns the error
  \<^verbatim>\<open>Missing required fields\<close> in the unchanged state.
\<close>

theorem errors_leave_state_unchanged:
  "(perform uuidv4 caller now c s = Some (Inr (Inl e, s')) \<longrightarrow> s' = s)
   \<and> (p_title payload = [] \<or> p_body payload = [] \<or> p_imageURL payload = [] \<longrightarrow>
        addPost_1 uuidv4 caller now payload s = Some (Inl ''Missing required fields'', s)
        \<and> addPost_2 uuidv4 caller now payload s = (Inl ''Missing required fields'', s))"
proof (intro conjI impI)
  assume run: "perform uuidv4 caller now c s = Some (Inr (Inl e, s'))"
  show "s' = s"
  proof (cases c)
    case (AddPost_1 payload)
    with run have "addPost_1 uuidv4 caller now payload s = Some (Inl e, s')" by auto
    from addPost_1_result [OF this] show ?thesis by auto
  next
    case (DeletePost_2 i)
    show ?thesis
    proof (cases "postStorage s i")
      case None
      then have "(postStorage s)(i := None) = postStorage s"
        by (simp add: fun_upd_idem)
      with None run DeletePost_2 show ?thesis
        by (simp add: deletePost_2_def store_remove_def)
    next
      case (Some p)
      with run DeletePost_2 show ?thesis
        by (simp add: deletePost_2_def store_remove_def)
    qed
  qed (use run in \<open>auto simp add: ops_defs split: option.splits if_splits\<close>)
next
  assume "p_title payload = [] \<or> p_body payload = [] \<or> p_imageURL payload = []"
  then show "addPost_1 uuidv4 caller now payload s = Some (Inl ''Missing required fields'', s)"
    by (auto simp add: addPost_1_def)
next
  assume "p_title payload = [] \<or> p_body payload = [] \<or> p_imageURL payload = []"
  then show "addPost_2 uuidv4 caller now payload s = (Inl ''Missing required fields'', s)"
    by (auto simp add: addPost_2_def)
qed

theorem errors_leave_state_unchanged_witness:
  "perform uuids alice 8 (LikePost_2 id_a) state_a
     = Some (Inr (Inl ''Owners cannot like their post'', state_a))
   \<and> p_title payload_empty_title = []
   \<and> addPost_1 uuids alice 8 payload_empty_title state_a = Some (Inl ''Missing required fields'', state_a)
   \<and> addPost_2 uuids alice 8 payload_empty_title state_a = (Inl ''Missing required fields'', state_a)"
  using errors_leave_state_unchanged [of uuids alice 8 "LikePost_2 id_a" state_a
      "''Owners cannot like their post''" state_a payload_empty_title]
  by (simp add: likePost_2_def store_get_def state_a_def post_a_def payload_empty_title_def)

section \<open>Creating and reading back\<close>

text \<open>
  Claim C6: for a payload whose title, body and image URL are all non-empty, \<^verbatim>\<open>addPost\<close>
  (lines 208 to 231) returns \<^verbatim>\<open>Ok\<close> with a post, and \<^verbatim>\<open>getPost\<close> on that post's id in the
  state after the call returns the same post; its owner is the caller, \<open>likes\<close> is 0,
  \<open>comments\<close> is empty and \<open>updated_at\<close> is unset. (The same for \<open>addPost_1\<close>, once
  \<^verbatim>\<open>uuidv4\<close> yields a string that the generator has not seen:
  \<open>addPost_1_then_getPost\<close>.)
\<close>

theorem addPost_then_getPost:
  assumes "p_title payload \<noteq> []" and "p_body payload \<noteq> []" and "p_imageURL payload \<noteq> []"
  shows "\<exists>post s'. addPost_2 uuidv4 caller now payload s = (Inr post, s')
           \<and> getPost (post_id post) s' = Inr post
           \<and> owner post = caller \<and> likes post = 0 \<and> comments post = [] \<and> updated_at post = None
           \<and> title post = p_title payload \<and> body post = p_body payload
           \<and> imageURL post = p_imageURL payload \<and> created_at post = now"
  using assms by (simp add: addPost_2_def getPost_def store_get_def store_insert_def Let_def)

theorem addPost_then_getPost_witness:
  "p_title payload_T \<noteq> [] \<and> p_body payload_T \<noteq> [] \<and> p_imageURL payload_T \<noteq> []
   \<and> addPost_2 uuids alice 5 payload_T init = (Inr post_a, state_a)
   \<and> getPost (post_id post_a) state_a = Inr post_a
   \<and> owner post_a = alice \<and> likes post_a = 0 \<and> comments post_a = [] \<and> updated_at post_a = None"
  using addPost_then_getPost [of payload_T uuids alice 5 init]
  by (simp add: addPost_2_def getPost_def store_get_def store_insert_def Let_def uuids_def
      payload_T_def init_def post_a_def state_a_def)

lemma addPost_1_then_getPost:
  assumes "p_title payload \<noteq> []" and "p_body payload \<noteq> []" and "p_imageURL payload \<noteq> []"
    and "uuidv4 (drawn s + k) \<notin> generatedUUIDs s"
  shows "\<exists>post s'. addPost_1 uuidv4 caller now payload s = Some (Inr post, s')
           \<and> getPost (post_id post) s' = Inr post
           \<and> owner post = caller \<and> likes post = 0 \<and> comments post = [] \<and> updated_at post = None"
proof -
  from generateUUID_returns [of uuidv4 "drawn s" k "generatedUUIDs s"] assms(4)
  obtain u n S where "generateUUID uuidv4 (drawn s) (generatedUUIDs s) = Some (u, n, S)"
    by (metis prod_cases3)
  with assms(1-3) show ?thesis
    by (simp add: addPost_1_def getPost_def store_get_def store_insert_def Let_def)
qed

section \<open>Comments\<close>

text \<open>
  Claim C7: for a stored post, \<^verbatim>\<open>commentOnPost\<close> stores and returns the post with the new
  comment appended after the comments it had, which stay as they were and in their order;
  for an id that is not in the store it returns the error \<^verbatim>\<open>Post not found.\<close> and
  changes nothing.
\<close>

theorem commentOnPost_appends:
  "(postStorage s i = Some p \<longrightarrow>
      commentOnPost i c s =
        (Inr (p\<lparr>comments := comments p @ [c]\<rparr>),
         s\<lparr>postStorage := (postStorage s)(i \<mapsto> p\<lparr>comments := comments p @ [c]\<rparr>)\<rparr>))
   \<and> (postStorage s i = None \<longrightarrow> commentOnPost i c s = (Inl ''Post not found.'', s))"
  by (simp add: commentOnPost_def store_get_def store_insert_def Let_def)

theorem commentOnPost_appends_witness:
  "postStorage state_a id_a = Some post_a
   \<and> commentOnPost id_a ''first'' state_a =
        (Inr (post_a\<lparr>comments := [''first'']\<rparr>),
         state_a\<lparr>postStorage := [id_a \<mapsto> post_a\<lparr>comments := [''first'']\<rparr>]\<rparr>)
   \<and> postStorage state_a id_b = None
   \<and> commentOnPost id_b ''first'' state_a = (Inl ''Post not found.'', state_a)"
  using commentOnPost_appends [of state_a id_a post_a "''first''"]
        commentOnPost_appends [of state_a id_b post_a "''first''"]
  by (simp add: state_a_def post_a_def id_a_def id_b_def)

section \<open>Owner, id and creation time are fixed\<close>

text \<open>
  Claim C8: a call of \<^verbatim>\<open>updatePost\<close> (lines 280 to 289), \<^verbatim>\<open>likePost\<close> (lines 261 to 276) or
  \<^verbatim>\<open>commentOnPost\<close> (lines 237 to 253) leaves every stored post in the store with the
  owner, the id and the creation time it had, whatever the call returns. The state is one
  in which every post is stored under its own id, which holds initially and is kept by
  every call (\<open>stored_under_own_id_init\<close>, \<open>perform_preserves_own_id\<close>).
\<close>

theorem rewriting_preserves_owner:
  assumes "stored_under_own_id s" and "postStorage s k = Some q"
  shows "(\<exists>q'. postStorage (snd (updatePost_2 caller now i payload s)) k = Some q'
            \<and> owner q' = owner q \<and> post_id q' = post_id q \<and> created_at q' = created_at q)
       \<and> (\<exists>q'. postStorage (snd (likePost_2 caller now i s)) k = Some q'
            \<and> owner q' = owner q \<and> post_id q' = post_id q \<and> created_at q' = created_at q)
       \<and> (\<exists>q'. postStorage (snd (commentOnPost i comment s)) k = Some q'
            \<and> owner q' = owner q \<and> post_id q' = post_id q \<and> created_at q' = created_at q)"
proof (intro conjI)
  show "\<exists>q'. postStorage (snd (updatePost_2 caller now i payload s)) k = Some q'
            \<and> owner q' = owner q \<and> post_id q' = post_id q \<and> created_at q' = created_at q"
    using assms
    by (auto simp add: stored_under_own_id_def updatePost_2_def store_get_def store_insert_def
        Let_def split: option.splits)
  show "\<exists>q'. postStorage (snd (likePost_2 caller now i s)) k = Some q'
            \<and> owner q' = owner q \<and> post_id q' = post_id q \<and> created_at q' = created_at q"
    using assms
    by (auto simp add: stored_under_own_id_def likePost_2_def store_get_def store_insert_def
        Let_def split: option.splits)
  show "\<exists>q'. postStorage (snd (commentOnPost i comment s)) k = Some q'
            \<and> owner q' = owner q \<and> post_id q' = post_id q \<and> created_at q' = created_at q"
    using assms
    by (auto simp add: commentOnPost_def store_get_def store_insert_def Let_def
        split: option.splits)
qed

theorem rewriting_preserves_owner_witness:
  "stored_under_own_id state_a \<and> postStorage state_a id_a = Some post_a
   \<and> postStorage (snd (updatePost_2 bob 9 id_a payload_X state_a)) id_a
        = Some (post_a\<lparr>title := ''X'', body := ''Y'', imageURL := ''Z'', updated_at := Some 9\<rparr>)
   \<and> postStorage (snd (likePost_2 bob 9 id_a state_a)) id_a
        = Some (post_a\<lparr>likes := 1, updated_at := Some 9\<rparr>)
   \<and> postStorage (snd (commentOnPost id_a ''first'' state_a)) id_a
        = Some (post_a\<lparr>comments := [''first'']\<rparr>)
   \<and> (\<exists>q'. postStorage (snd (updatePost_2 bob 9 id_a payload_X state_a)) id_a = Some q'
          \<and> owner q' = alice \<and> post_id q' = id_a \<and> created_at q' = 5)
   \<and> (\<exists>q'. postStorage (snd (likePost_2 bob 9 id_a state_a)) id_a = Some q'
          \<and> owner q' = alice \<and> post_id q' = id_a \<and> created_at q' = 5)
   \<and> (\<exists>q'. postStorage (snd (commentOnPost id_a ''first'' state_a)) id_a = Some q'
          \<and> owner q' = alice \<and> post_id q' = id_a \<and> created_at q' = 5)"
  using rewriting_preserves_owner [of state_a id_a post_a bob 9 id_a payload_X "''first''"]
  by (simp add: stored_under_own_id_def updatePost_2_def likePost_2_def commentOnPost_def
      store_get_def store_insert_def Let_def number_plus_1_def state_a_def post_a_def
      payload_X_def alice_def bob_def)

text \<open>
  Claim C9: a successful \<^verbatim>\<open>commentOnPost\<close> changes the \<open>comments\<close> field of the post and
  no other: \<open>updated_at\<close> is what it was, so a post whose \<open>updated_at\<close> was unset still
  has it unset, and putting the old comments back gives the old post.
\<close>

theorem commentOnPost_keeps_updated_at:
  assumes "postStorage s i = Some p"
  shows "\<exists>p'. commentOnPost i c s = (Inr p', s\<lparr>postStorage := (postStorage s)(i \<mapsto> p')\<rparr>)
           \<and> updated_at p' = updated_at p \<and> p'\<lparr>comments := comments p\<rparr> = p
           \<and> (updated_at p = None \<longrightarrow> updated_at p' = None)"
  using assms by (simp add: commentOnPost_def store_get_def store_insert_def Let_def)

theorem commentOnPost_keeps_updated_at_witness:
  "postStorage state_a id_a = Some post_a \<and> updated_at post_a = None
   \<and> (\<exists>p'. commentOnPost id_a ''first'' state_a
              = (Inr p', state_a\<lparr>postStorage := (postStorage state_a)(id_a \<mapsto> p')\<rparr>)
         \<and> updated_at p' = None \<and> p'\<lparr>comments := comments post_a\<rparr> = post_a)"
  using commentOnPost_keeps_updated_at [of state_a id_a post_a "''first''"]
  by (auto simp add: state_a_def post_a_def)

text \<open>
  Claim C10: \<^verbatim>\<open>commentOnPost\<close> does not look at the comment. For a stored post and every
  comment, the empty one included, it returns \<^verbatim>\<open>Ok\<close> with the comment appended and stores
  that post; it returns an error exactly when the id is not in the store.
\<close>

theorem commentOnPost_no_validation:
  "(postStorage s i = Some p \<longrightarrow>
      commentOnPost i c s =
        (Inr (p\<lparr>comments := comments p @ [c]\<rparr>),
         s\<lparr>postStorage := (postStorage s)(i \<mapsto> p\<lparr>comments := comments p @ [c]\<rparr>)\<rparr>)
      \<and> commentOnPost i [] s =
        (Inr (p\<lparr>comments := comments p @ [[]]\<rparr>),
         s\<lparr>postStorage := (postStorage s)(i \<mapsto> p\<lparr>comments := comments p @ [[]]\<rparr>)\<rparr>))
   \<and> ((\<exists>e. fst (commentOnPost i c s) = Inl e) \<longleftrightarrow> postStorage s i = None)"
  by (auto simp add: commentOnPost_def store_get_def store_insert_def Let_def split: option.splits)

theorem commentOnPost_no_validation_witness:
  "postStorage state_a id_a = Some post_a
   \<and> commentOnPost id_a ''a comment'' state_a =
        (Inr (post_a\<lparr>comments := [''a comment'']\<rparr>),
         state_a\<lparr>postStorage := [id_a \<mapsto> post_a\<lparr>comments := [''a comment'']\<rparr>]\<rparr>)
   \<and> commentOnPost id_a [] state_a =
        (Inr (post_a\<lparr>comments := [[]]\<rparr>),
         state_a\<lparr>postStorage := [id_a \<mapsto> post_a\<lparr>comments := [[]]\<rparr>]\<rparr>)
   \<and> postStorage state_a id_b = None
   \<and> (\<exists>e. fst (commentOnPost id_b ''a comment'' state_a) = Inl e)"
  using commentOnPost_no_validation [of state_a id_a post_a "''a comment''"]
        commentOnPost_no_validation [of state_a id_b post_a "''a comment''"]
  by (simp add: state_a_def post_a_def id_a_def id_b_def)

end
